theory Spec2Isabelle
  imports Main "HOL-Library.Word"
begin

section \<open>Data model of eth2deposit/credentials.py\<close>

text \<open>
  Byte strings (Python \<^verbatim>\<open>bytes\<close>) are lists of 8-bit words, Python integers are
  unbounded \<open>int\<close>, Python \<^verbatim>\<open>str\<close> is \<open>string\<close>.
\<close>

type_synonym bytes = "8 word list"

text \<open>
  The exceptions that can leave the modelled functions. \<open>ValidationError\<close> is raised by
  \<^verbatim>\<open>deposit_message\<close>, \<open>ValueError\<close> by \<^verbatim>\<open>from_mnemonic\<close>, \<open>IndexError\<close> by list
  indexing; \<open>DerivationError\<close>, \<open>KeystoreError\<close> and \<open>IOError\<close> are what the external
  key derivation, the keystore decryption and the keystore file loader may raise;
  \<open>AssertionError\<close> is what \<^verbatim>\<open>compute_deposit_domain\<close> raises for a fork version that is
  not 4 bytes, and \<open>SerializationError\<close> what the SSZ serialisation inside
  \<^verbatim>\<open>compute_signing_root\<close> raises for a field of the wrong width.
\<close>

datatype error =
    ValidationError
  | ValueError
  | IndexError
  | DerivationError
  | KeystoreError
  | IOError
  | AssertionError
  | SerializationError

text \<open>The two SSZ containers of \<^verbatim>\<open>eth2deposit.utils.ssz\<close>, by their fields.\<close>

record DepositMessage =
  pubkey :: bytes
  withdrawal_credentials :: bytes
  amount :: int

record DepositData = DepositMessage +
  signature :: bytes

text \<open>The fields that \<^verbatim>\<open>Credential.__init__\<close> stores on \<^verbatim>\<open>self\<close>.\<close>

record Credential =
  withdrawal_sk :: int
  signing_sk :: int
  signing_key_path :: string
  amount :: int
  fork_version :: bytes

text \<open>\<^verbatim>\<open>CredentialList.__init__\<close> stores the list it is given.\<close>

record CredentialList =
  credentials :: "Credential list"

text \<open>
  The values of the dictionary that \<^verbatim>\<open>generate_deposit_datum_dict\<close> returns are byte
  strings, one integer (the amount) and one string (the tool version).
\<close>

datatype datum_value = BytesV bytes | IntV int | StrV string

subsection \<open>The collaborators, as parameters\<close>

text \<open>
  credentials.py imports its cryptography, serialisation, keystore codec and constants
  from modules that are not part of the verified file. They are parameters of the model:
  one record of functions and constants, passed to every operation. Key derivation,
  the computation of the deposit domain (which checks the width of the fork version), the
  computation of the signing root (which serialises the message), keystore loading and
  keystore decryption may raise; the other functions are total. \<open>'ks\<close> is the type of a
  loaded keystore.
\<close>

record 'ks collaborators =
  mnemonic_and_path_to_key :: "string \<Rightarrow> string \<Rightarrow> string \<Rightarrow> error + int"
    \<comment> \<open>mnemonic, path, password (the source passes them by keyword)\<close>
  SkToPk :: "int \<Rightarrow> bytes"
  Sign :: "int \<Rightarrow> bytes \<Rightarrow> bytes"
  SHA256 :: "bytes \<Rightarrow> bytes"
  compute_deposit_domain :: "bytes \<Rightarrow> error + bytes"
  compute_signing_root :: "DepositMessage \<Rightarrow> bytes \<Rightarrow> error + bytes"
  message_hash_tree_root :: "DepositMessage \<Rightarrow> bytes"
  data_hash_tree_root :: "DepositData \<Rightarrow> bytes"
  Keystore_from_file :: "string \<Rightarrow> error + 'ks"
  Keystore_decrypt :: "'ks \<Rightarrow> string \<Rightarrow> error + bytes"
  MIN_DEPOSIT_AMOUNT :: int
  MAX_DEPOSIT_AMOUNT :: int
  DEPOSIT_CLI_VERSION :: string

text \<open>
  Modelled from the spec: the constant \<^verbatim>\<open>BLS_WITHDRAWAL_PREFIX\<close> of
  \<^verbatim>\<open>eth2deposit.utils.constants\<close>, which is not among the source files. The spec gives
  the withdrawal credentials as \<^verbatim>\<open>0x00 || SHA256(withdrawal_pk)[1:32]\<close>, and the test
  \<^verbatim>\<open>test_new_mnemonic\<close> compares them with \<^verbatim>\<open>b'\x00' + SHA256(...)[1:]\<close>.
\<close>

definition BLS_WITHDRAWAL_PREFIX :: bytes where
  "BLS_WITHDRAWAL_PREFIX = [0]"

subsection \<open>Python primitives\<close>

text \<open>The slices \<^verbatim>\<open>xs[lo:]\<close> and \<^verbatim>\<open>xs[lo:hi]\<close> for non-negative bounds.\<close>

definition slice_from :: "nat \<Rightarrow> 'a list \<Rightarrow> 'a list" where
  "slice_from lo xs = drop lo xs"

definition slice :: "nat \<Rightarrow> nat \<Rightarrow> 'a list \<Rightarrow> 'a list" where
  "slice lo hi xs = take (hi - lo) (drop lo xs)"

text \<open>\<^verbatim>\<open>int.from_bytes(bs, 'big')\<close>.\<close>

definition int_from_bytes_big :: "bytes \<Rightarrow> int" where
  "int_from_bytes_big bs = foldl (\<lambda>acc b. acc * 256 + uint b) 0 bs"

text \<open>
  \<^verbatim>\<open>xs[j]\<close> for a Python integer \<open>j\<close>: negative indices count from the end, and an
  index out of range raises.
\<close>

definition py_index :: "'a list \<Rightarrow> int \<Rightarrow> error + 'a" where
  "py_index xs j =
     (let n = int (length xs); k = (if j < 0 then n + j else j)
      in if 0 \<le> k \<and> k < n then Inr (xs ! nat k) else Inl IndexError)"

text \<open>\<^verbatim>\<open>str(i)\<close> for an integer: its decimal digits, with a minus sign when negative.\<close>

definition digit_char :: "nat \<Rightarrow> char" where
  "digit_char d = ''0123456789'' ! d"

fun decimal :: "nat \<Rightarrow> string" where
  "decimal n = (if n < 10 then [digit_char n] else decimal (n div 10) @ [digit_char (n mod 10)])"

declare decimal.simps [simp del]

definition str :: "int \<Rightarrow> string" where
  "str i = (if i < 0 then CHR ''-'' # decimal (nat (- i)) else decimal (nat i))"

section \<open>Credential\<close>

subsection \<open>Derived properties\<close>

definition signing_pk :: "'ks collaborators \<Rightarrow> Credential \<Rightarrow> bytes" where
  "signing_pk env self = SkToPk env (signing_sk self)"

definition withdrawal_pk :: "'ks collaborators \<Rightarrow> Credential \<Rightarrow> bytes" where
  "withdrawal_pk env self = SkToPk env (withdrawal_sk self)"

definition withdrawal_credentials :: "'ks collaborators \<Rightarrow> Credential \<Rightarrow> bytes" where
  "withdrawal_credentials env self =
     BLS_WITHDRAWAL_PREFIX @ slice_from 1 (SHA256 env (withdrawal_pk env self))"

text \<open>
  \<^verbatim>\<open>deposit_message\<close> raises \<open>ValidationError\<close> unless
  \<^verbatim>\<open>MIN_DEPOSIT_AMOUNT <= self.amount <= MAX_DEPOSIT_AMOUNT\<close>. The text of the error
  message is not modelled.
\<close>

definition deposit_message :: "'ks collaborators \<Rightarrow> Credential \<Rightarrow> error + DepositMessage" where
  "deposit_message env self =
     (if \<not> (MIN_DEPOSIT_AMOUNT env \<le> Credential.amount self
             \<and> Credential.amount self \<le> MAX_DEPOSIT_AMOUNT env)
      then Inl ValidationError
      else Inr \<lparr>pubkey = signing_pk env self,
                DepositMessage.withdrawal_credentials = withdrawal_credentials env self,
                DepositMessage.amount = Credential.amount self\<rparr>)"

subsection \<open>Signing a deposit\<close>

text \<open>
  \<^verbatim>\<open>generate_signed_deposit\<close>: the domain is computed first (line 76, and may raise), then
  the property \<^verbatim>\<open>deposit_message\<close> is read (line 77, and may raise); an assigned value
  replaces the withdrawal credentials of the message through \<^verbatim>\<open>copy\<close>; the signing root
  is computed over that message and the domain (line 82, and may raise); the
  \<^verbatim>\<open>DepositData\<close> is built from the fields of that message and the signature.
\<close>

definition generate_signed_deposit ::
  "'ks collaborators \<Rightarrow> Credential \<Rightarrow> bytes option \<Rightarrow> error + DepositData" where
  "generate_signed_deposit env self assigned_withdrawal_credentials =
     (case compute_deposit_domain env (fork_version self) of
        Inl e \<Rightarrow> Inl e
      | Inr domain \<Rightarrow>
          (case deposit_message env self of
             Inl e \<Rightarrow> Inl e
           | Inr dm \<Rightarrow>
               (let dm' = (case assigned_withdrawal_credentials of
                             None \<Rightarrow> dm
                           | Some w \<Rightarrow> dm\<lparr>DepositMessage.withdrawal_credentials := w\<rparr>)
                in case compute_signing_root env dm' domain of
                     Inl e \<Rightarrow> Inl e
                   | Inr signing_root \<Rightarrow>
                       Inr \<lparr>pubkey = pubkey dm',
                            DepositMessage.withdrawal_credentials =
                              DepositMessage.withdrawal_credentials dm',
                            DepositMessage.amount = DepositMessage.amount dm',
                            signature = Sign env (signing_sk self) signing_root\<rparr>)))"

text \<open>\<^verbatim>\<open>DepositData.as_dict()\<close>: a fresh dictionary of the four fields.\<close>

definition as_dict :: "DepositData \<Rightarrow> (string \<rightharpoonup> datum_value)" where
  "as_dict d =
     [''pubkey'' \<mapsto> BytesV (pubkey d),
      ''withdrawal_credentials'' \<mapsto> BytesV (DepositMessage.withdrawal_credentials d),
      ''amount'' \<mapsto> IntV (DepositMessage.amount d),
      ''signature'' \<mapsto> BytesV (signature d)]"

text \<open>
  \<^verbatim>\<open>generate_deposit_datum_dict\<close>: the signed deposit is generated with the assigned
  credentials; the message root is taken from the property \<^verbatim>\<open>self.deposit_message\<close>,
  read again (line 96 of the source); the four \<^verbatim>\<open>update\<close> calls follow in order.
\<close>

definition generate_deposit_datum_dict ::
  "'ks collaborators \<Rightarrow> Credential \<Rightarrow> bytes option \<Rightarrow> error + (string \<rightharpoonup> datum_value)" where
  "generate_deposit_datum_dict env self assigned_withdrawal_credentials =
     (case generate_signed_deposit env self assigned_withdrawal_credentials of
        Inl e \<Rightarrow> Inl e
      | Inr signed_deposit_datum \<Rightarrow>
          (case deposit_message env self of
             Inl e \<Rightarrow> Inl e
           | Inr dm \<Rightarrow>
               Inr ((as_dict signed_deposit_datum)
                     (''deposit_message_root'' \<mapsto> BytesV (message_hash_tree_root env dm),
                      ''deposit_data_root'' \<mapsto> BytesV (data_hash_tree_root env signed_deposit_datum),
                      ''fork_version'' \<mapsto> BytesV (fork_version self),
                      ''deposit_cli_version'' \<mapsto> StrV (DEPOSIT_CLI_VERSION env)))))"

subsection \<open>Verifying a keystore\<close>

definition verify_keystore ::
  "'ks collaborators \<Rightarrow> Credential \<Rightarrow> string \<Rightarrow> string \<Rightarrow> error + bool" where
  "verify_keystore env self keystore_filefolder password =
     (case Keystore_from_file env keystore_filefolder of
        Inl e \<Rightarrow> Inl e
      | Inr saved_keystore \<Rightarrow>
          (case Keystore_decrypt env saved_keystore password of
             Inl e \<Rightarrow> Inl e
           | Inr secret_bytes \<Rightarrow> Inr (signing_sk self = int_from_bytes_big secret_bytes)))"

subsection \<open>Construction\<close>

text \<open>
  Key derivation is the expensive external step whose calls the specification counts, so
  every call is recorded: the state threaded through construction is the list of
  (mnemonic, path, password) triples that \<^verbatim>\<open>mnemonic_and_path_to_key\<close> has been called
  with, in call order.
\<close>

type_synonym derivation_log = "(string \<times> string \<times> string) list"

definition derive_key ::
  "'ks collaborators \<Rightarrow> string \<Rightarrow> string \<Rightarrow> string \<Rightarrow> derivation_log
     \<Rightarrow> derivation_log \<times> (error + int)" where
  "derive_key env mnemonic path password log =
     (log @ [(mnemonic, path, password)], mnemonic_and_path_to_key env mnemonic path password)"

definition purpose :: string where
  "purpose = ''12381''"

definition coin_type :: string where
  "coin_type = ''3600''"

text \<open>The local \<^verbatim>\<open>withdrawal_key_path\<close> of \<^verbatim>\<open>__init__\<close>, as a function of the index.\<close>

definition withdrawal_key_path :: "int \<Rightarrow> string" where
  "withdrawal_key_path index =
     ''m/'' @ purpose @ ''/'' @ coin_type @ ''/'' @ str index @ ''/0''"

text \<open>
  \<^verbatim>\<open>Credential.__init__\<close>: an exception of either derivation leaves no object.
\<close>

definition Credential_init ::
  "'ks collaborators \<Rightarrow> string \<Rightarrow> string \<Rightarrow> int \<Rightarrow> int \<Rightarrow> bytes \<Rightarrow> derivation_log
     \<Rightarrow> derivation_log \<times> (error + Credential)" where
  "Credential_init env mnemonic mnemonic_password index amount0 fork_version0 log =
     (let path = withdrawal_key_path index;
          signing_path = path @ ''/0''
      in case derive_key env mnemonic path mnemonic_password log of
           (log1, Inl e) \<Rightarrow> (log1, Inl e)
         | (log1, Inr wsk) \<Rightarrow>
             (case derive_key env mnemonic signing_path mnemonic_password log1 of
                (log2, Inl e) \<Rightarrow> (log2, Inl e)
              | (log2, Inr ssk) \<Rightarrow>
                  (log2, Inr \<lparr>withdrawal_sk = wsk, signing_sk = ssk,
                              signing_key_path = signing_path,
                              Credential.amount = amount0,
                              fork_version = fork_version0\<rparr>)))"

section \<open>CredentialList\<close>

text \<open>
  The list comprehension of \<^verbatim>\<open>from_mnemonic\<close>, over the indices still to visit: the
  argument \<^verbatim>\<open>amounts[index - start_index]\<close> is evaluated before the constructor runs,
  and the first exception ends the loop. The progress bar only observes the iteration
  and is not modelled.
\<close>

fun make_credentials ::
  "'ks collaborators \<Rightarrow> string \<Rightarrow> string \<Rightarrow> int list \<Rightarrow> bytes \<Rightarrow> int \<Rightarrow> int list
     \<Rightarrow> derivation_log \<Rightarrow> derivation_log \<times> (error + Credential list)" where
  "make_credentials env mnemonic mnemonic_password amounts fork_version0 start_index [] log =
     (log, Inr [])"
| "make_credentials env mnemonic mnemonic_password amounts fork_version0 start_index
     (index # indices) log =
     (case py_index amounts (index - start_index) of
        Inl e \<Rightarrow> (log, Inl e)
      | Inr amount0 \<Rightarrow>
          (case Credential_init env mnemonic mnemonic_password index amount0 fork_version0 log of
             (log1, Inl e) \<Rightarrow> (log1, Inl e)
           | (log1, Inr c) \<Rightarrow>
               (case make_credentials env mnemonic mnemonic_password amounts fork_version0
                       start_index indices log1 of
                  (log2, Inl e) \<Rightarrow> (log2, Inl e)
                | (log2, Inr cs) \<Rightarrow> (log2, Inr (c # cs)))))"

text \<open>\<^verbatim>\<open>range(start_index, start_index + num_keys)\<close>.\<close>

definition key_indices :: "int \<Rightarrow> int \<Rightarrow> int list" where
  "key_indices start_index num_keys = [start_index .. start_index + num_keys - 1]"

definition from_mnemonic ::
  "'ks collaborators \<Rightarrow> string \<Rightarrow> string \<Rightarrow> int \<Rightarrow> int list \<Rightarrow> bytes \<Rightarrow> int
     \<Rightarrow> derivation_log \<Rightarrow> derivation_log \<times> (error + CredentialList)" where
  "from_mnemonic env mnemonic mnemonic_password num_keys amounts fork_version0 start_index log =
     (if int (length amounts) \<noteq> num_keys then (log, Inl ValueError)
      else case make_credentials env mnemonic mnemonic_password amounts fork_version0
                  start_index (key_indices start_index num_keys) log of
             (log1, Inl e) \<Rightarrow> (log1, Inl e)
           | (log1, Inr cs) \<Rightarrow> (log1, Inr \<lparr>credentials = cs\<rparr>))"

text \<open>
  \<^verbatim>\<open>verify_keystores\<close>: \<^verbatim>\<open>all\<close> over a generator on \<^verbatim>\<open>zip(credentials, files)\<close>. The
  generator is consumed in order; the first \<open>False\<close> ends it, and an exception of a
  verification leaves through \<^verbatim>\<open>all\<close>.
\<close>

fun all_verified ::
  "'ks collaborators \<Rightarrow> (Credential \<times> string) list \<Rightarrow> string \<Rightarrow> error + bool" where
  "all_verified env [] password = Inr True"
| "all_verified env ((credential, filefolder) # items) password =
     (case verify_keystore env credential filefolder password of
        Inl e \<Rightarrow> Inl e
      | Inr ok \<Rightarrow> (if ok then all_verified env items password else Inr False))"

definition verify_keystores ::
  "'ks collaborators \<Rightarrow> CredentialList \<Rightarrow> string list \<Rightarrow> string \<Rightarrow> error + bool" where
  "verify_keystores env self keystore_filefolders password =
     all_verified env (zip (credentials self) keystore_filefolders) password"

section \<open>The read-only members as calls on the object\<close>

text \<open>
  Python runs a method body against the object \<^verbatim>\<open>self\<close>, whose attributes a statement
  may read or assign. To say what a call does to the object, the six members of lines 51
  to 100 are given once more, statement by statement, as transformers of the object: a
  call takes the attributes as they are before it and returns its result together with
  the attributes as they are after it. Reading an attribute is \<open>getattr\<close>; reading a
  property inside a body is a call of that property, and the object it leaves is the one
  the next statement sees. The locals \<^verbatim>\<open>withdrawal_credentials\<close>, \<^verbatim>\<open>deposit_message\<close> and
  \<^verbatim>\<open>datum_dict\<close> are fresh values: \<^verbatim>\<open>+=\<close> on \<^verbatim>\<open>bytes\<close> rebinds the local, \<^verbatim>\<open>copy\<close>
  returns a new container, and \<^verbatim>\<open>update\<close> changes the dictionary that \<^verbatim>\<open>as_dict\<close> has
  just built.
\<close>

definition getattr :: "(Credential \<Rightarrow> 'a) \<Rightarrow> Credential \<Rightarrow> 'a \<times> Credential" where
  "getattr field self = (field self, self)"

definition signing_pk_call :: "'ks collaborators \<Rightarrow> Credential \<Rightarrow> bytes \<times> Credential" where
  "signing_pk_call env self =
     (case getattr signing_sk self of (sk, self1) \<Rightarrow> (SkToPk env sk, self1))"

definition withdrawal_pk_call :: "'ks collaborators \<Rightarrow> Credential \<Rightarrow> bytes \<times> Credential" where
  "withdrawal_pk_call env self =
     (case getattr withdrawal_sk self of (sk, self1) \<Rightarrow> (SkToPk env sk, self1))"

definition withdrawal_credentials_call ::
  "'ks collaborators \<Rightarrow> Credential \<Rightarrow> bytes \<times> Credential" where
  "withdrawal_credentials_call env self =
     (case withdrawal_pk_call env self of
        (pk, self1) \<Rightarrow> (BLS_WITHDRAWAL_PREFIX @ slice_from 1 (SHA256 env pk), self1))"

definition deposit_message_call ::
  "'ks collaborators \<Rightarrow> Credential \<Rightarrow> (error + DepositMessage) \<times> Credential" where
  "deposit_message_call env self =
     (case getattr Credential.amount self of
        (checked, self1) \<Rightarrow>
          if \<not> (MIN_DEPOSIT_AMOUNT env \<le> checked \<and> checked \<le> MAX_DEPOSIT_AMOUNT env)
          then (Inl ValidationError, self1)
          else
            (case signing_pk_call env self1 of
               (pk, self2) \<Rightarrow>
                 (case withdrawal_credentials_call env self2 of
                    (wc, self3) \<Rightarrow>
                      (case getattr Credential.amount self3 of
                         (amt, self4) \<Rightarrow>
                           (Inr \<lparr>pubkey = pk,
                                 DepositMessage.withdrawal_credentials = wc,
                                 DepositMessage.amount = amt\<rparr>, self4)))))"

definition generate_signed_deposit_call ::
  "'ks collaborators \<Rightarrow> bytes option \<Rightarrow> Credential \<Rightarrow> (error + DepositData) \<times> Credential" where
  "generate_signed_deposit_call env assigned_withdrawal_credentials self =
     (case getattr fork_version self of
        (fv, self1) \<Rightarrow>
          (case compute_deposit_domain env fv of
             Inl e \<Rightarrow> (Inl e, self1)
           | Inr domain \<Rightarrow>
               (case deposit_message_call env self1 of
                  (Inl e, self2) \<Rightarrow> (Inl e, self2)
                | (Inr dm, self2) \<Rightarrow>
                    (let dm' = (case assigned_withdrawal_credentials of
                                  None \<Rightarrow> dm
                                | Some w \<Rightarrow> dm\<lparr>DepositMessage.withdrawal_credentials := w\<rparr>)
                     in case compute_signing_root env dm' domain of
                          Inl e \<Rightarrow> (Inl e, self2)
                        | Inr signing_root \<Rightarrow>
                            (case getattr signing_sk self2 of
                               (sk, self3) \<Rightarrow>
                                 (Inr \<lparr>pubkey = pubkey dm',
                                       DepositMessage.withdrawal_credentials =
                                         DepositMessage.withdrawal_credentials dm',
                                       DepositMessage.amount = DepositMessage.amount dm',
                                       signature = Sign env sk signing_root\<rparr>, self3))))))"

definition generate_deposit_datum_dict_call ::
  "'ks collaborators \<Rightarrow> bytes option \<Rightarrow> Credential
     \<Rightarrow> (error + (string \<rightharpoonup> datum_value)) \<times> Credential" where
  "generate_deposit_datum_dict_call env assigned_withdrawal_credentials self =
     (case generate_signed_deposit_call env assigned_withdrawal_credentials self of
        (Inl e, self1) \<Rightarrow> (Inl e, self1)
      | (Inr signed_deposit_datum, self1) \<Rightarrow>
          (case deposit_message_call env self1 of
             (Inl e, self2) \<Rightarrow> (Inl e, self2)
           | (Inr dm, self2) \<Rightarrow>
               (case getattr fork_version self2 of
                  (fv, self3) \<Rightarrow>
                    (Inr ((as_dict signed_deposit_datum)
                           (''deposit_message_root'' \<mapsto> BytesV (message_hash_tree_root env dm),
                            ''deposit_data_root'' \<mapsto>
                              BytesV (data_hash_tree_root env signed_deposit_datum),
                            ''fork_version'' \<mapsto> BytesV fv,
                            ''deposit_cli_version'' \<mapsto> StrV (DEPOSIT_CLI_VERSION env))),
                     self3))))"

section \<open>A concrete instance of the collaborators\<close>

text \<open>
  The theorems below hold for every value of the collaborators. To run the model at
  concrete inputs, \<open>demo_env\<close> fixes small computable stand-ins: key derivation rejects the
  empty mnemonic and otherwise returns the length of the path plus the length of the
  password, a public key is the secret key as one byte, the hash pads or cuts to 32
  bytes, the domain is refused unless the fork version has 4 bytes, the signing root is
  refused unless the withdrawal credentials have 32 bytes, the roots concatenate the
  fields they cover, and the file system holds two keystores, each a pair of the secret
  bytes and the password that opens it.
\<close>

definition demo_env :: "(bytes \<times> string) collaborators" where
  "demo_env =
     \<lparr>mnemonic_and_path_to_key =
        (\<lambda>mnemonic path password.
           if mnemonic = [] then Inl DerivationError
           else Inr (int (length path) + int (length password))),
      SkToPk = (\<lambda>sk. [word_of_int sk]),
      Sign = (\<lambda>sk msg. word_of_int sk # msg),
      SHA256 = (\<lambda>bs. take 32 (bs @ replicate 32 7)),
      compute_deposit_domain =
        (\<lambda>fv. if length fv = 4 then Inr (3 # fv) else Inl AssertionError),
      compute_signing_root =
        (\<lambda>m domain.
           if length (DepositMessage.withdrawal_credentials m) = 32
           then Inr (pubkey m @ DepositMessage.withdrawal_credentials m @ domain)
           else Inl SerializationError),
      message_hash_tree_root = (\<lambda>m. pubkey m @ DepositMessage.withdrawal_credentials m),
      data_hash_tree_root =
        (\<lambda>d. pubkey d @ DepositMessage.withdrawal_credentials d @ signature d),
      Keystore_from_file =
        (\<lambda>name. if name = ''k0'' then Inr ([0, 21], ''pw'')
                else if name = ''k1'' then Inr ([1, 0], ''pw'')
                else Inl IOError),
      Keystore_decrypt =
        (\<lambda>ks password. if password = snd ks then Inr (fst ks) else Inl KeystoreError),
      MIN_DEPOSIT_AMOUNT = 1000000000,
      MAX_DEPOSIT_AMOUNT = 32000000000,
      DEPOSIT_CLI_VERSION = ''1.0.0''\<rparr>"

definition demo_credential :: Credential where
  "demo_credential =
     \<lparr>withdrawal_sk = 18, signing_sk = 21, signing_key_path = ''m/12381/3600/0/0/0'',
      Credential.amount = 32000000000, fork_version = [0, 0, 0, 0]\<rparr>"

section \<open>Properties of Credential\<close>

text \<open>
  Claim C3. \<^verbatim>\<open>deposit_message\<close> raises the validation error exactly when the amount is
  outside the closed interval from \<^verbatim>\<open>MIN_DEPOSIT_AMOUNT\<close> to \<^verbatim>\<open>MAX_DEPOSIT_AMOUNT\<close>, and
  otherwise returns the message made of the signing public key, the derived withdrawal
  credentials and the amount. One below the minimum and one above the maximum fail; the
  minimum and the maximum themselves succeed. The two bounds are parameters, and the
  interval is taken to be non-empty.
\<close>

theorem deposit_message_bounds:
  assumes "MIN_DEPOSIT_AMOUNT env \<le> MAX_DEPOSIT_AMOUNT env"
  shows "deposit_message env c =
           (if MIN_DEPOSIT_AMOUNT env \<le> Credential.amount c
               \<and> Credential.amount c \<le> MAX_DEPOSIT_AMOUNT env
            then Inr \<lparr>pubkey = signing_pk env c,
                      DepositMessage.withdrawal_credentials = withdrawal_credentials env c,
                      DepositMessage.amount = Credential.amount c\<rparr>
            else Inl ValidationError)
         \<and> deposit_message env (c\<lparr>Credential.amount := MIN_DEPOSIT_AMOUNT env - 1\<rparr>)
             = Inl ValidationError
         \<and> deposit_message env (c\<lparr>Credential.amount := MAX_DEPOSIT_AMOUNT env + 1\<rparr>)
             = Inl ValidationError
         \<and> deposit_message env (c\<lparr>Credential.amount := MIN_DEPOSIT_AMOUNT env\<rparr>)
             = Inr \<lparr>pubkey = signing_pk env c,
                    DepositMessage.withdrawal_credentials = withdrawal_credentials env c,
                    DepositMessage.amount = MIN_DEPOSIT_AMOUNT env\<rparr>
         \<and> deposit_message env (c\<lparr>Credential.amount := MAX_DEPOSIT_AMOUNT env\<rparr>)
             = Inr \<lparr>pubkey = signing_pk env c,
                    DepositMessage.withdrawal_credentials = withdrawal_credentials env c,
                    DepositMessage.amount = MAX_DEPOSIT_AMOUNT env\<rparr>"
  using assms
  by (simp add: deposit_message_def signing_pk_def withdrawal_pk_def withdrawal_credentials_def)

theorem deposit_message_bounds_witness:
  "MIN_DEPOSIT_AMOUNT demo_env \<le> MAX_DEPOSIT_AMOUNT demo_env
   \<and> deposit_message demo_env (demo_credential\<lparr>Credential.amount := 999999999\<rparr>)
       = Inl ValidationError
   \<and> deposit_message demo_env (demo_credential\<lparr>Credential.amount := 32000000001\<rparr>)
       = Inl ValidationError
   \<and> deposit_message demo_env (demo_credential\<lparr>Credential.amount := 1000000000\<rparr>)
       = Inr \<lparr>pubkey = signing_pk demo_env demo_credential,
              DepositMessage.withdrawal_credentials =
                withdrawal_credentials demo_env demo_credential,
              DepositMessage.amount = 1000000000\<rparr>"
proof -
  have nonempty: "MIN_DEPOSIT_AMOUNT demo_env \<le> MAX_DEPOSIT_AMOUNT demo_env"
    by (simp add: demo_env_def)
  show ?thesis
    using nonempty deposit_message_bounds [OF nonempty, of demo_credential]
    by (simp add: demo_env_def)
qed

text \<open>
  Claim C4. The withdrawal credentials are 32 bytes: the prefix byte 0x00, then bytes 1
  to 31 of the SHA256 digest of the withdrawal public key, which is \<^verbatim>\<open>SkToPk\<close> of the
  withdrawal secret key. The digest is a parameter; that it has 32 bytes is assumed.
\<close>

theorem withdrawal_credentials_layout:
  assumes "length (SHA256 env (withdrawal_pk env c)) = 32"
  shows "length (withdrawal_credentials env c) = 32
         \<and> withdrawal_credentials env c ! 0 = 0
         \<and> slice_from 1 (withdrawal_credentials env c)
             = slice 1 32 (SHA256 env (withdrawal_pk env c))
         \<and> withdrawal_pk env c = SkToPk env (withdrawal_sk c)"
  using assms
  by (simp add: withdrawal_credentials_def BLS_WITHDRAWAL_PREFIX_def slice_from_def slice_def
      withdrawal_pk_def)

theorem withdrawal_credentials_layout_witness:
  "length (SHA256 demo_env (withdrawal_pk demo_env demo_credential)) = 32
   \<and> withdrawal_credentials demo_env demo_credential = 0 # replicate 31 7"
proof -
  have digest: "length (SHA256 demo_env (withdrawal_pk demo_env demo_credential)) = 32"
    by (simp add: demo_env_def)
  show ?thesis
    using digest withdrawal_credentials_layout [OF digest]
    by (simp add: demo_env_def withdrawal_credentials_def withdrawal_pk_def
        demo_credential_def BLS_WITHDRAWAL_PREFIX_def slice_from_def)
qed

text \<open>
  Claim C2. \<^verbatim>\<open>generate_signed_deposit\<close> computes the domain from the fork version the
  credential holds at the call; the message it signs has the assigned withdrawal
  credentials when some are given and the derived ones otherwise; the signing root is
  taken over that message and that domain; the signature is made with the signing secret
  key over that root; the returned \<^verbatim>\<open>DepositData\<close> has the fields of that message and the
  signature. The call returns exactly when the domain is accepted, the amount is within
  bounds and the signing root is accepted for the message; otherwise it raises, in source
  order, the error of the domain, the validation error of \<^verbatim>\<open>deposit_message\<close>, or the
  error of the signing root. Nothing but the present fields of the credential and the
  argument enters the result.
\<close>

theorem generate_signed_deposit_spec:
  "generate_signed_deposit env c assigned =
     (case compute_deposit_domain env (fork_version c) of
        Inl e \<Rightarrow> Inl e
      | Inr domain \<Rightarrow>
          if MIN_DEPOSIT_AMOUNT env \<le> Credential.amount c
             \<and> Credential.amount c \<le> MAX_DEPOSIT_AMOUNT env
          then
            (case compute_signing_root env
                    \<lparr>pubkey = SkToPk env (signing_sk c),
                     DepositMessage.withdrawal_credentials =
                       (case assigned of
                          None \<Rightarrow> withdrawal_credentials env c
                        | Some w \<Rightarrow> w),
                     DepositMessage.amount = Credential.amount c\<rparr>
                    domain of
               Inl e \<Rightarrow> Inl e
             | Inr signing_root \<Rightarrow>
                 Inr \<lparr>pubkey = SkToPk env (signing_sk c),
                      DepositMessage.withdrawal_credentials =
                        (case assigned of
                           None \<Rightarrow> withdrawal_credentials env c
                         | Some w \<Rightarrow> w),
                      DepositMessage.amount = Credential.amount c,
                      signature = Sign env (signing_sk c) signing_root\<rparr>)
          else Inl ValidationError)"
proof (cases "compute_deposit_domain env (fork_version c)")
  case (Inl e)
  then show ?thesis
    by (simp add: generate_signed_deposit_def)
next
  case (Inr domain)
  then show ?thesis
    by (auto simp add: generate_signed_deposit_def deposit_message_def signing_pk_def Let_def
        split: sum.splits option.splits)
qed

theorem generate_signed_deposit_spec_witness:
  "generate_signed_deposit demo_env demo_credential (Some (1 # replicate 31 0))
     = Inr \<lparr>pubkey = [21],
            DepositMessage.withdrawal_credentials = 1 # replicate 31 0,
            DepositMessage.amount = 32000000000,
            signature = 21 # [21] @ (1 # replicate 31 0) @ [3, 0, 0, 0, 0]\<rparr>
   \<and> generate_signed_deposit demo_env demo_credential None
       = Inr \<lparr>pubkey = [21],
              DepositMessage.withdrawal_credentials = 0 # replicate 31 7,
              DepositMessage.amount = 32000000000,
              signature = 21 # [21] @ (0 # replicate 31 7) @ [3, 0, 0, 0, 0]\<rparr>
   \<and> generate_signed_deposit demo_env demo_credential (Some (replicate 31 0))
       = Inl SerializationError
   \<and> generate_signed_deposit demo_env
         (demo_credential\<lparr>Credential.amount := 0, fork_version := [0, 0, 0]\<rparr>) None
       = Inl AssertionError
   \<and> generate_signed_deposit demo_env (demo_credential\<lparr>Credential.amount := 0\<rparr>) None
       = Inl ValidationError"
  using generate_signed_deposit_spec [of demo_env demo_credential "Some (1 # replicate 31 0)"]
    generate_signed_deposit_spec [of demo_env demo_credential None]
    generate_signed_deposit_spec [of demo_env demo_credential "Some (replicate 31 0)"]
    generate_signed_deposit_spec [of demo_env
      "demo_credential\<lparr>Credential.amount := 0, fork_version := [0, 0, 0]\<rparr>" None]
    generate_signed_deposit_spec [of demo_env "demo_credential\<lparr>Credential.amount := 0\<rparr>" None]
  by (simp add: demo_env_def demo_credential_def withdrawal_credentials_def withdrawal_pk_def
      BLS_WITHDRAWAL_PREFIX_def slice_from_def)

text \<open>
  What \<^verbatim>\<open>generate_deposit_datum_dict\<close> stores as the message root, for every value of
  the collaborators and every argument: the root of the message with the derived
  withdrawal credentials.
\<close>

lemma generate_deposit_datum_dict_message_root:
  assumes "generate_deposit_datum_dict env c assigned = Inr d"
  shows "d ''deposit_message_root''
           = Some (BytesV (message_hash_tree_root env
               \<lparr>pubkey = SkToPk env (signing_sk c),
                DepositMessage.withdrawal_credentials = withdrawal_credentials env c,
                DepositMessage.amount = Credential.amount c\<rparr>))"
proof -
  obtain sd where sd: "generate_signed_deposit env c assigned = Inr sd"
    using assms
    by (cases "generate_signed_deposit env c assigned")
       (simp_all add: generate_deposit_datum_dict_def)
  obtain dm where dm: "deposit_message env c = Inr dm"
    using assms sd
    by (cases "deposit_message env c") (simp_all add: generate_deposit_datum_dict_def)
  have msg: "dm = \<lparr>pubkey = SkToPk env (signing_sk c),
                DepositMessage.withdrawal_credentials = withdrawal_credentials env c,
                DepositMessage.amount = Credential.amount c\<rparr>"
    using dm by (simp add: deposit_message_def signing_pk_def split: if_splits)
  have "d = (as_dict sd)
              (''deposit_message_root'' \<mapsto> BytesV (message_hash_tree_root env dm),
               ''deposit_data_root'' \<mapsto> BytesV (data_hash_tree_root env sd),
               ''fork_version'' \<mapsto> BytesV (fork_version c),
               ''deposit_cli_version'' \<mapsto> StrV (DEPOSIT_CLI_VERSION env))"
    using assms by (simp add: generate_deposit_datum_dict_def sd dm)
  then show ?thesis
    by (simp add: msg)
qed

text \<open>
  Claim C1. \<^verbatim>\<open>generate_deposit_datum_dict\<close> is claimed to give, as
  \<^verbatim>\<open>deposit_message_root\<close>, the root of the message that was signed, with the assigned
  withdrawal credentials substituted. The code takes the root of \<^verbatim>\<open>self.deposit_message\<close>,
  which never carries the assigned credentials. At the credential \<open>demo_credential\<close>, with
  the assigned credentials 0x01 followed by 31 zero bytes, the returned dictionary holds
  the assigned credentials, and its \<^verbatim>\<open>deposit_message_root\<close> is the root of the message
  with the derived credentials, which differs from the root of the signed message.
\<close>

theorem datum_dict_message_root_under_override:
  "case generate_deposit_datum_dict demo_env demo_credential (Some (1 # replicate 31 0)) of
     Inl e \<Rightarrow> False
   | Inr d \<Rightarrow>
       d ''withdrawal_credentials'' = Some (BytesV (1 # replicate 31 0))
       \<and> d ''deposit_message_root''
           = Some (BytesV (message_hash_tree_root demo_env
                \<lparr>pubkey = [21],
                 DepositMessage.withdrawal_credentials = 0 # replicate 31 7,
                 DepositMessage.amount = 32000000000\<rparr>))
       \<and> d ''deposit_message_root''
           \<noteq> Some (BytesV (message_hash_tree_root demo_env
                \<lparr>pubkey = [21],
                 DepositMessage.withdrawal_credentials = 1 # replicate 31 0,
                 DepositMessage.amount = 32000000000\<rparr>))"
  by (simp add: generate_deposit_datum_dict_def generate_signed_deposit_def deposit_message_def
      signing_pk_def withdrawal_credentials_def withdrawal_pk_def BLS_WITHDRAWAL_PREFIX_def
      slice_from_def as_dict_def demo_env_def demo_credential_def Let_def)

text \<open>
  Claim C8. A credential constructed for account index \<open>i\<close> uses the withdrawal path
  \<^verbatim>\<open>m/12381/3600/{i}/0\<close> and the signing path that appends \<^verbatim>\<open>/0\<close> to it, so both
  paths lie under the same account and differ from each other; its withdrawal secret key
  is what key derivation returns for the first path and its signing secret key what it
  returns for the second, derived in that order.
\<close>

theorem credential_paths:
  assumes "Credential_init env mnemonic mnemonic_password index amt fv calls = (calls', Inr c)"
  shows "withdrawal_key_path index = ''m/12381/3600/'' @ str index @ ''/0''
         \<and> signing_key_path c = withdrawal_key_path index @ ''/0''
         \<and> signing_key_path c \<noteq> withdrawal_key_path index
         \<and> mnemonic_and_path_to_key env mnemonic (withdrawal_key_path index) mnemonic_password
             = Inr (withdrawal_sk c)
         \<and> mnemonic_and_path_to_key env mnemonic (signing_key_path c) mnemonic_password
             = Inr (signing_sk c)
         \<and> calls' = calls @ [(mnemonic, withdrawal_key_path index, mnemonic_password),
                              (mnemonic, signing_key_path c, mnemonic_password)]"
proof -
  have path: "withdrawal_key_path index = ''m/12381/3600/'' @ str index @ ''/0''"
    by (simp add: withdrawal_key_path_def purpose_def coin_type_def)
  have rest: "signing_key_path c = withdrawal_key_path index @ ''/0''
         \<and> mnemonic_and_path_to_key env mnemonic (withdrawal_key_path index) mnemonic_password
             = Inr (withdrawal_sk c)
         \<and> mnemonic_and_path_to_key env mnemonic (signing_key_path c) mnemonic_password
             = Inr (signing_sk c)
         \<and> calls' = calls @ [(mnemonic, withdrawal_key_path index, mnemonic_password),
                              (mnemonic, signing_key_path c, mnemonic_password)]"
    using assms
    by (auto simp add: Credential_init_def derive_key_def Let_def split: sum.splits)
  have distinct_paths: "signing_key_path c \<noteq> withdrawal_key_path index"
    using rest by simp
  show ?thesis
    using path rest distinct_paths by blast
qed

lemma withdrawal_key_path_0: "withdrawal_key_path 0 = ''m/12381/3600/0/0''"
  by (simp add: withdrawal_key_path_def purpose_def coin_type_def str_def decimal.simps
      digit_char_def)

theorem credential_paths_witness:
  "Credential_init demo_env ''legal winner'' [] 0 32000000000 [0, 0, 0, 0] []
     = ([(''legal winner'', ''m/12381/3600/0/0'', []),
         (''legal winner'', ''m/12381/3600/0/0/0'', [])],
        Inr \<lparr>withdrawal_sk = 16, signing_sk = 18,
             signing_key_path = ''m/12381/3600/0/0/0'',
             Credential.amount = 32000000000, fork_version = [0, 0, 0, 0]\<rparr>)
   \<and> withdrawal_key_path 0 = ''m/12381/3600/0/0''
   \<and> mnemonic_and_path_to_key demo_env ''legal winner'' ''m/12381/3600/0/0'' [] = Inr 16
   \<and> mnemonic_and_path_to_key demo_env ''legal winner'' ''m/12381/3600/0/0/0'' [] = Inr 18"
proof -
  have built: "Credential_init demo_env ''legal winner'' [] 0 32000000000 [0, 0, 0, 0] []
     = ([(''legal winner'', ''m/12381/3600/0/0'', []),
         (''legal winner'', ''m/12381/3600/0/0/0'', [])],
        Inr \<lparr>withdrawal_sk = 16, signing_sk = 18,
             signing_key_path = ''m/12381/3600/0/0/0'',
             Credential.amount = 32000000000, fork_version = [0, 0, 0, 0]\<rparr>)"
    by (simp add: Credential_init_def derive_key_def Let_def withdrawal_key_path_0
        demo_env_def)
  have wkey: "mnemonic_and_path_to_key demo_env ''legal winner'' (withdrawal_key_path 0) []
                = Inr 16"
    using credential_paths [OF built, THEN conjunct2, THEN conjunct2, THEN conjunct2,
        THEN conjunct1]
    by simp
  have skey: "mnemonic_and_path_to_key demo_env ''legal winner'' ''m/12381/3600/0/0/0'' []
                = Inr 18"
    using credential_paths [OF built, THEN conjunct2, THEN conjunct2, THEN conjunct2,
        THEN conjunct2, THEN conjunct1]
    by simp
  show ?thesis
    using built wkey skey by (simp add: withdrawal_key_path_0)
qed

lemma signing_pk_call_frame: "signing_pk_call env self = (signing_pk env self, self)"
  by (simp add: signing_pk_call_def getattr_def signing_pk_def)

lemma withdrawal_pk_call_frame: "withdrawal_pk_call env self = (withdrawal_pk env self, self)"
  by (simp add: withdrawal_pk_call_def getattr_def withdrawal_pk_def)

lemma withdrawal_credentials_call_frame:
  "withdrawal_credentials_call env self = (withdrawal_credentials env self, self)"
  by (simp add: withdrawal_credentials_call_def withdrawal_pk_call_frame
      withdrawal_credentials_def)

lemma deposit_message_call_frame:
  "deposit_message_call env self = (deposit_message env self, self)"
  by (simp add: deposit_message_call_def getattr_def signing_pk_call_frame
      withdrawal_credentials_call_frame deposit_message_def)

lemma generate_signed_deposit_call_frame:
  "generate_signed_deposit_call env assigned self
     = (generate_signed_deposit env self assigned, self)"
proof (cases "compute_deposit_domain env (fork_version self)")
  case (Inl e)
  then show ?thesis
    by (simp add: generate_signed_deposit_call_def getattr_def generate_signed_deposit_def)
next
  case (Inr domain)
  show ?thesis
  proof (cases "deposit_message env self")
    case (Inl e)
    then show ?thesis
      using Inr
      by (simp add: generate_signed_deposit_call_def getattr_def deposit_message_call_frame
          generate_signed_deposit_def)
  next
    case dm: (Inr dm)
    then show ?thesis
      using Inr
      by (simp add: generate_signed_deposit_call_def getattr_def deposit_message_call_frame
          generate_signed_deposit_def Let_def split: sum.splits)
  qed
qed

lemma generate_deposit_datum_dict_call_frame:
  "generate_deposit_datum_dict_call env assigned self
     = (generate_deposit_datum_dict env self assigned, self)"
  by (simp add: generate_deposit_datum_dict_call_def generate_signed_deposit_call_frame
      deposit_message_call_frame getattr_def generate_deposit_datum_dict_def
      split: sum.splits)

text \<open>
  Claim C9. A call of \<^verbatim>\<open>signing_pk\<close>, \<^verbatim>\<open>withdrawal_pk\<close>, \<^verbatim>\<open>withdrawal_credentials\<close>,
  \<^verbatim>\<open>deposit_message\<close>, \<^verbatim>\<open>generate_signed_deposit\<close> or \<^verbatim>\<open>generate_deposit_datum_dict\<close>,
  whether it returns or raises, leaves the object with the stored fields it had before
  the call, and its result is the value that the stored fields and the arguments
  determine. So a second call with the same arguments, after any of these calls, gives
  the same result again.
\<close>

theorem credential_calls_leave_object:
  "signing_pk_call env self = (signing_pk env self, self)
   \<and> withdrawal_pk_call env self = (withdrawal_pk env self, self)
   \<and> withdrawal_credentials_call env self = (withdrawal_credentials env self, self)
   \<and> deposit_message_call env self = (deposit_message env self, self)
   \<and> generate_signed_deposit_call env assigned self
       = (generate_signed_deposit env self assigned, self)
   \<and> generate_deposit_datum_dict_call env assigned self
       = (generate_deposit_datum_dict env self assigned, self)
   \<and> generate_deposit_datum_dict_call env assigned
         (snd (generate_deposit_datum_dict_call env assigned' self))
       = generate_deposit_datum_dict_call env assigned self
   \<and> generate_signed_deposit_call env assigned
         (snd (generate_deposit_datum_dict_call env assigned' self))
       = generate_signed_deposit_call env assigned self"
  by (simp add: signing_pk_call_frame withdrawal_pk_call_frame
      withdrawal_credentials_call_frame deposit_message_call_frame
      generate_signed_deposit_call_frame generate_deposit_datum_dict_call_frame)

theorem credential_calls_leave_object_witness:
  "snd (generate_deposit_datum_dict_call demo_env (Some (1 # replicate 31 0)) demo_credential)
     = demo_credential
   \<and> fst (generate_signed_deposit_call demo_env (Some (replicate 31 0)) demo_credential)
       = Inl SerializationError
   \<and> snd (generate_signed_deposit_call demo_env (Some (replicate 31 0)) demo_credential)
       = demo_credential
   \<and> deposit_message_call demo_env (demo_credential\<lparr>Credential.amount := 0\<rparr>)
       = (Inl ValidationError, demo_credential\<lparr>Credential.amount := 0\<rparr>)
   \<and> signing_pk_call demo_env demo_credential = ([21], demo_credential)"
  using credential_calls_leave_object
      [of demo_env demo_credential "Some (1 # replicate 31 0)" "None"]
    credential_calls_leave_object
      [of demo_env demo_credential "Some (replicate 31 0)" "None"]
    credential_calls_leave_object
      [of demo_env "demo_credential\<lparr>Credential.amount := 0\<rparr>" "None" "None"]
  by (simp add: generate_signed_deposit_def deposit_message_def signing_pk_def
      withdrawal_credentials_def withdrawal_pk_def BLS_WITHDRAWAL_PREFIX_def slice_from_def
      demo_env_def demo_credential_def)

section \<open>Properties of CredentialList\<close>

text \<open>
  Claim C5. When the number of amounts differs from \<^verbatim>\<open>num_keys\<close>, \<^verbatim>\<open>from_mnemonic\<close>
  raises \<open>ValueError\<close> and the record of key derivation calls is as it was before the
  call: no key was derived, no credential and no list was built.
\<close>

theorem from_mnemonic_length_mismatch:
  assumes "int (length amounts) \<noteq> num_keys"
  shows "from_mnemonic env mnemonic mnemonic_password num_keys amounts fv start_index calls
           = (calls, Inl ValueError)"
  using assms by (simp add: from_mnemonic_def)

theorem from_mnemonic_length_mismatch_witness:
  "int (length [32000000000 :: int]) \<noteq> 2
   \<and> from_mnemonic demo_env ''legal winner'' [] 2 [32000000000] [0, 0, 0, 0] 0 []
       = ([], Inl ValueError)"
proof -
  have mismatch: "int (length [32000000000 :: int]) \<noteq> 2" by simp
  show ?thesis
    using mismatch from_mnemonic_length_mismatch [OF mismatch] by simp
qed

lemma upto_as_offsets: "[start .. start + int n - 1] = map (\<lambda>k. start + int k) [0..<n]"
proof (induction n)
  case 0
  show ?case by simp
next
  case (Suc n)
  have "[start .. start + int (Suc n) - 1] = [start .. start + int n - 1] @ [start + int n]"
    using upto_rec2 [of start "start + int n"] by simp
  then show ?case by (simp add: Suc.IH)
qed

lemma py_index_in_range: "k < length xs \<Longrightarrow> py_index xs (int k) = Inr (xs ! k)"
  by (simp add: py_index_def)

lemma Credential_init_ok:
  assumes "mnemonic_and_path_to_key env mnemonic (withdrawal_key_path index) password = Inr wsk"
    and "mnemonic_and_path_to_key env mnemonic (withdrawal_key_path index @ ''/0'') password
           = Inr ssk"
  shows "Credential_init env mnemonic password index amt fv calls
           = (calls @ [(mnemonic, withdrawal_key_path index, password),
                       (mnemonic, withdrawal_key_path index @ ''/0'', password)],
              Inr \<lparr>withdrawal_sk = wsk, signing_sk = ssk,
                   signing_key_path = withdrawal_key_path index @ ''/0'',
                   Credential.amount = amt, fork_version = fv\<rparr>)"
  using assms by (simp add: Credential_init_def derive_key_def Let_def)

lemma make_credentials_offsets:
  assumes "\<forall>k \<in> set ks. k < length amounts
             \<and> mnemonic_and_path_to_key env mnemonic
                 (withdrawal_key_path (start + int k)) password = Inr (wsk k)
             \<and> mnemonic_and_path_to_key env mnemonic
                 (withdrawal_key_path (start + int k) @ ''/0'') password = Inr (ssk k)"
  shows "make_credentials env mnemonic password amounts fv start
           (map (\<lambda>k. start + int k) ks) calls
         = (calls @ concat (map (\<lambda>k.
                [(mnemonic, withdrawal_key_path (start + int k), password),
                 (mnemonic, withdrawal_key_path (start + int k) @ ''/0'', password)]) ks),
            Inr (map (\<lambda>k. \<lparr>withdrawal_sk = wsk k, signing_sk = ssk k,
                   signing_key_path = withdrawal_key_path (start + int k) @ ''/0'',
                   Credential.amount = amounts ! k, fork_version = fv\<rparr>) ks))"
  using assms
proof (induction ks arbitrary: calls)
  case Nil
  show ?case by simp
next
  case (Cons k ks)
  from Cons.prems have k: "k < length amounts"
    and w: "mnemonic_and_path_to_key env mnemonic
                 (withdrawal_key_path (start + int k)) password = Inr (wsk k)"
    and s: "mnemonic_and_path_to_key env mnemonic
                 (withdrawal_key_path (start + int k) @ ''/0'') password = Inr (ssk k)"
    by simp_all
  from Cons.prems have rest: "\<forall>k \<in> set ks. k < length amounts
             \<and> mnemonic_and_path_to_key env mnemonic
                 (withdrawal_key_path (start + int k)) password = Inr (wsk k)
             \<and> mnemonic_and_path_to_key env mnemonic
                 (withdrawal_key_path (start + int k) @ ''/0'') password = Inr (ssk k)"
    by simp
  show ?case
    by (simp add: py_index_in_range [OF k] Credential_init_ok [OF w s] Cons.IH [OF rest])
qed

text \<open>
  Claim C6. With as many amounts as keys, and a mnemonic whose derivations all succeed,
  \<^verbatim>\<open>from_mnemonic\<close> returns exactly \<^verbatim>\<open>num_keys\<close> credentials: the one at position \<open>k\<close> is
  built for index \<^verbatim>\<open>start_index + k\<close> from the keys derived for that index, with the
  amount at position \<open>k\<close> and the shared fork version. The derivations happen in ascending
  index order, the withdrawal path before the signing path. The result does not depend
  on what was derived before the call.
\<close>

theorem from_mnemonic_credentials:
  assumes "int (length amounts) = num_keys"
    and "\<forall>k < length amounts.
           mnemonic_and_path_to_key env mnemonic
             (withdrawal_key_path (start_index + int k)) password = Inr (wsk k)
           \<and> mnemonic_and_path_to_key env mnemonic
               (withdrawal_key_path (start_index + int k) @ ''/0'') password = Inr (ssk k)"
  shows "from_mnemonic env mnemonic password num_keys amounts fv start_index calls
         = (calls @ concat (map (\<lambda>k.
                [(mnemonic, withdrawal_key_path (start_index + int k), password),
                 (mnemonic, withdrawal_key_path (start_index + int k) @ ''/0'', password)])
              [0..<nat num_keys]),
            Inr \<lparr>credentials = map (\<lambda>k. \<lparr>withdrawal_sk = wsk k, signing_sk = ssk k,
                   signing_key_path = withdrawal_key_path (start_index + int k) @ ''/0'',
                   Credential.amount = amounts ! k, fork_version = fv\<rparr>)
              [0..<nat num_keys]\<rparr>)
         \<and> snd (from_mnemonic env mnemonic password num_keys amounts fv start_index calls')
             = snd (from_mnemonic env mnemonic password num_keys amounts fv start_index calls)"
proof -
  have n: "nat num_keys = length amounts"
    using assms(1) by auto
  have indices: "key_indices start_index num_keys
                   = map (\<lambda>k. start_index + int k) [0..<length amounts]"
    using assms(1) upto_as_offsets [of start_index "length amounts"]
    by (simp add: key_indices_def)
  have each: "\<forall>k \<in> set [0..<length amounts]. k < length amounts
             \<and> mnemonic_and_path_to_key env mnemonic
                 (withdrawal_key_path (start_index + int k)) password = Inr (wsk k)
             \<and> mnemonic_and_path_to_key env mnemonic
                 (withdrawal_key_path (start_index + int k) @ ''/0'') password = Inr (ssk k)"
    using assms(2) by simp
  have run: "\<And>cs. from_mnemonic env mnemonic password num_keys amounts fv start_index cs
         = (cs @ concat (map (\<lambda>k.
                [(mnemonic, withdrawal_key_path (start_index + int k), password),
                 (mnemonic, withdrawal_key_path (start_index + int k) @ ''/0'', password)])
              [0..<nat num_keys]),
            Inr \<lparr>credentials = map (\<lambda>k. \<lparr>withdrawal_sk = wsk k, signing_sk = ssk k,
                   signing_key_path = withdrawal_key_path (start_index + int k) @ ''/0'',
                   Credential.amount = amounts ! k, fork_version = fv\<rparr>)
              [0..<nat num_keys]\<rparr>)"
    using assms(1)
    by (simp add: from_mnemonic_def indices n make_credentials_offsets [OF each])
  show ?thesis
    by (simp add: run)
qed

theorem from_mnemonic_credentials_witness:
  "int (length [1000000000, 32000000000 :: int]) = 2
   \<and> mnemonic_and_path_to_key demo_env ''legal winner'' ''m/12381/3600/7/0'' [] = Inr 16
   \<and> mnemonic_and_path_to_key demo_env ''legal winner'' ''m/12381/3600/7/0/0'' [] = Inr 18
   \<and> mnemonic_and_path_to_key demo_env ''legal winner'' ''m/12381/3600/8/0'' [] = Inr 16
   \<and> mnemonic_and_path_to_key demo_env ''legal winner'' ''m/12381/3600/8/0/0'' [] = Inr 18
   \<and> from_mnemonic demo_env ''legal winner'' [] 2 [1000000000, 32000000000] [0, 0, 0, 0] 7 []
       = ([(''legal winner'', ''m/12381/3600/7/0'', []),
           (''legal winner'', ''m/12381/3600/7/0/0'', []),
           (''legal winner'', ''m/12381/3600/8/0'', []),
           (''legal winner'', ''m/12381/3600/8/0/0'', [])],
          Inr \<lparr>credentials =
            [\<lparr>withdrawal_sk = 16, signing_sk = 18,
              signing_key_path = ''m/12381/3600/7/0/0'',
              Credential.amount = 1000000000, fork_version = [0, 0, 0, 0]\<rparr>,
             \<lparr>withdrawal_sk = 16, signing_sk = 18,
              signing_key_path = ''m/12381/3600/8/0/0'',
              Credential.amount = 32000000000, fork_version = [0, 0, 0, 0]\<rparr>]\<rparr>)"
proof -
  have len: "int (length [1000000000, 32000000000 :: int]) = 2"
    by simp
  have keys: "\<forall>k < length [1000000000, 32000000000 :: int].
         mnemonic_and_path_to_key demo_env ''legal winner''
           (withdrawal_key_path (7 + int k)) []
           = Inr (int (length (withdrawal_key_path (7 + int k))))
         \<and> mnemonic_and_path_to_key demo_env ''legal winner''
             (withdrawal_key_path (7 + int k) @ ''/0'') []
             = Inr (int (length (withdrawal_key_path (7 + int k) @ ''/0'')))"
    by (simp add: demo_env_def)
  have upt2: "[0..<2::nat] = [0, 1]"
    by (simp add: upt_rec)
  have p7: "withdrawal_key_path 7 = ''m/12381/3600/7/0''"
    by (simp add: withdrawal_key_path_def purpose_def coin_type_def str_def decimal.simps
        digit_char_def)
  have p8: "withdrawal_key_path 8 = ''m/12381/3600/8/0''"
    by (simp add: withdrawal_key_path_def purpose_def coin_type_def str_def decimal.simps
        digit_char_def)
  show ?thesis
    using len from_mnemonic_credentials [OF len keys, of "[0, 0, 0, 0]" "[]" "[]"]
    by (simp add: upt2 p7 p8 demo_env_def)
qed

lemma all_verified_True:
  "(all_verified env items password = Inr True)
     = list_all (\<lambda>(c, f). verify_keystore env c f password = Inr True) items"
proof (induction items)
  case Nil
  show ?case by simp
next
  case (Cons item items)
  obtain c f where item: "item = (c, f)" by (cases item)
  show ?case
    by (cases "verify_keystore env c f password") (simp_all add: item Cons.IH)
qed

lemma all_verified_and:
  "list_all (\<lambda>(c, f). \<not> isl (verify_keystore env c f password)) items
   \<Longrightarrow> all_verified env items password
         = Inr (list_all (\<lambda>(c, f). verify_keystore env c f password = Inr True) items)"
proof (induction items)
  case Nil
  show ?case by simp
next
  case (Cons item items)
  obtain c f where item: "item = (c, f)" by (cases item)
  from Cons.prems have rest: "list_all (\<lambda>(c, f). \<not> isl (verify_keystore env c f password)) items"
    by simp
  from Cons.prems item obtain b where b: "verify_keystore env c f password = Inr b"
    by (cases "verify_keystore env c f password") simp_all
  show ?case
    by (cases b) (simp_all add: item b Cons.IH [OF rest])
qed

lemma int_from_bytes_big_snoc:
  "int_from_bytes_big (bs @ [b]) = int_from_bytes_big bs * 256 + uint b"
  by (simp add: int_from_bytes_big_def)

text \<open>
  Claim C7. \<^verbatim>\<open>verify_keystores\<close> pairs credentials and files by position and returns true
  exactly when every pair verifies true; when every verification returns, its result is
  their conjunction. A pair verifies true exactly when the file loads, decrypts under the
  given password, and the decrypted bytes read as a big-endian integer equal the signing
  secret key; so a password under which decryption fails, or gives other bytes, never
  yields true.
\<close>

theorem verify_keystores_spec:
  "(verify_keystores env self files password = Inr True)
       = list_all (\<lambda>(c, f). verify_keystore env c f password = Inr True)
           (zip (credentials self) files)
   \<and> (list_all (\<lambda>(c, f). \<not> isl (verify_keystore env c f password))
         (zip (credentials self) files)
       \<longrightarrow> verify_keystores env self files password
             = Inr (list_all (\<lambda>(c, f). verify_keystore env c f password = Inr True)
                     (zip (credentials self) files)))
   \<and> (verify_keystore env c f password = Inr True)
       = (\<exists>ks secret. Keystore_from_file env f = Inr ks
            \<and> Keystore_decrypt env ks password = Inr secret
            \<and> int_from_bytes_big secret = signing_sk c)
   \<and> int_from_bytes_big [] = 0
   \<and> int_from_bytes_big (bs @ [b]) = int_from_bytes_big bs * 256 + uint b"
proof -
  have one: "(verify_keystore env c f password = Inr True)
       = (\<exists>ks secret. Keystore_from_file env f = Inr ks
            \<and> Keystore_decrypt env ks password = Inr secret
            \<and> int_from_bytes_big secret = signing_sk c)"
    by (auto simp add: verify_keystore_def split: sum.splits)
  show ?thesis
    using one
    by (simp add: verify_keystores_def all_verified_True all_verified_and
        int_from_bytes_big_snoc)
       (simp add: int_from_bytes_big_def)
qed

theorem verify_keystores_spec_witness:
  "list_all (\<lambda>(c, f). \<not> isl (verify_keystore demo_env c f ''pw''))
     (zip (credentials \<lparr>credentials = [demo_credential, demo_credential\<lparr>signing_sk := 256\<rparr>]\<rparr>)
        [''k0'', ''k1''])
   \<and> verify_keystores demo_env
        \<lparr>credentials = [demo_credential, demo_credential\<lparr>signing_sk := 256\<rparr>]\<rparr>
        [''k0'', ''k1''] ''pw'' = Inr True
   \<and> verify_keystore demo_env demo_credential ''k0'' ''wrong'' \<noteq> Inr True"
  using verify_keystores_spec [of demo_env
      "\<lparr>credentials = [demo_credential, demo_credential\<lparr>signing_sk := 256\<rparr>]\<rparr>"
      "[''k0'', ''k1'']" "''pw''" demo_credential "''k0''" "[]" 0]
    verify_keystores_spec [of demo_env
      "\<lparr>credentials = []\<rparr>" "[]" "''wrong''" demo_credential "''k0''" "[]" 0]
  by (simp add: verify_keystore_def demo_env_def demo_credential_def int_from_bytes_big_def)

lemma zip_take_left: "zip (take (length ys) xs) ys = zip xs ys"
proof (induction xs arbitrary: ys)
  case Nil
  show ?case by simp
next
  case (Cons x xs)
  show ?case by (cases ys) (simp_all add: Cons.IH)
qed

lemma zip_take_right: "zip xs (take (length xs) ys) = zip xs ys"
proof (induction xs arbitrary: ys)
  case Nil
  show ?case by simp
next
  case (Cons x xs)
  show ?case by (cases ys) (simp_all add: Cons.IH)
qed

lemma list_all_zip_nth:
  "list_all P (zip xs ys) = (\<forall>i < min (length xs) (length ys). P (xs ! i, ys ! i))"
  by (simp add: list_all_length)

text \<open>
  Claim C10. \<^verbatim>\<open>verify_keystores\<close> looks only at the positions that have both a credential
  and a file: it returns true exactly when the credential and the file at every position
  below the shorter length verify true, and when every one of these verifications
  returns, its result is their conjunction. With fewer files than credentials these are
  the first \<^verbatim>\<open>len(keystore_filefolders)\<close> pairs: the credentials beyond them are never
  looked at, so the result equals that for the credential list cut to the number of
  files, and it can be true although a skipped credential verifies with no file. Files
  beyond the number of credentials are ignored in the same way.
\<close>

theorem verify_keystores_unpaired:
  "(verify_keystores env self files password = Inr True)
     = (\<forall>i < min (length (credentials self)) (length files).
          verify_keystore env (credentials self ! i) (files ! i) password = Inr True)
   \<and> ((\<forall>i < min (length (credentials self)) (length files).
          \<not> isl (verify_keystore env (credentials self ! i) (files ! i) password))
       \<longrightarrow> verify_keystores env self files password
             = Inr (\<forall>i < min (length (credentials self)) (length files).
                      verify_keystore env (credentials self ! i) (files ! i) password
                        = Inr True))
   \<and> verify_keystores env self files password
       = verify_keystores env \<lparr>credentials = take (length files) (credentials self)\<rparr>
           files password
   \<and> verify_keystores env self files password
       = verify_keystores env self (take (length (credentials self)) files) password
   \<and> verify_keystores env \<lparr>credentials = c # cs\<rparr> [] password = Inr True"
proof -
  have true_iff: "(verify_keystores env self files password = Inr True)
     = (\<forall>i < min (length (credentials self)) (length files).
          verify_keystore env (credentials self ! i) (files ! i) password = Inr True)"
    by (simp add: verify_keystores_def all_verified_True list_all_zip_nth)
  have conj_if_returns: "(\<forall>i < min (length (credentials self)) (length files).
          \<not> isl (verify_keystore env (credentials self ! i) (files ! i) password))
       \<longrightarrow> verify_keystores env self files password
             = Inr (\<forall>i < min (length (credentials self)) (length files).
                      verify_keystore env (credentials self ! i) (files ! i) password
                        = Inr True)"
  proof
    assume "\<forall>i < min (length (credentials self)) (length files).
          \<not> isl (verify_keystore env (credentials self ! i) (files ! i) password)"
    then have "list_all (\<lambda>(c, f). \<not> isl (verify_keystore env c f password))
                 (zip (credentials self) files)"
      by (simp add: list_all_zip_nth)
    then show "verify_keystores env self files password
             = Inr (\<forall>i < min (length (credentials self)) (length files).
                      verify_keystore env (credentials self ! i) (files ! i) password
                        = Inr True)"
      by (simp add: verify_keystores_def all_verified_and list_all_zip_nth)
  qed
  have cut: "verify_keystores env self files password
       = verify_keystores env \<lparr>credentials = take (length files) (credentials self)\<rparr>
           files password
   \<and> verify_keystores env self files password
       = verify_keystores env self (take (length (credentials self)) files) password
   \<and> verify_keystores env \<lparr>credentials = c # cs\<rparr> [] password = Inr True"
    by (simp add: verify_keystores_def zip_take_left zip_take_right)
  show ?thesis
    using true_iff conj_if_returns cut by blast
qed

theorem verify_keystores_unpaired_witness:
  "verify_keystores demo_env
     \<lparr>credentials = [demo_credential, demo_credential\<lparr>signing_sk := 5\<rparr>]\<rparr> [''k0''] ''pw''
     = Inr True
   \<and> verify_keystore demo_env (demo_credential\<lparr>signing_sk := 5\<rparr>) ''k0'' ''pw'' = Inr False
   \<and> verify_keystore demo_env (demo_credential\<lparr>signing_sk := 5\<rparr>) ''k1'' ''pw'' = Inr False
   \<and> verify_keystores demo_env
       \<lparr>credentials = [demo_credential\<lparr>signing_sk := 5\<rparr>, demo_credential]\<rparr> [''k0''] ''pw''
       = Inr False
   \<and> verify_keystores demo_env \<lparr>credentials = [demo_credential]\<rparr> [''k0'', ''missing''] ''pw''
       = Inr True"
  using verify_keystores_unpaired [of demo_env
      "\<lparr>credentials = [demo_credential, demo_credential\<lparr>signing_sk := 5\<rparr>]\<rparr>"
      "[''k0'']" "''pw''" demo_credential "[]"]
    verify_keystores_unpaired [of demo_env
      "\<lparr>credentials = [demo_credential\<lparr>signing_sk := 5\<rparr>, demo_credential]\<rparr>"
      "[''k0'']" "''pw''" demo_credential "[]"]
    verify_keystores_unpaired [of demo_env
      "\<lparr>credentials = [demo_credential]\<rparr>"
      "[''k0'', ''missing'']" "''pw''" demo_credential "[]"]
  by (simp add: verify_keystore_def demo_env_def demo_credential_def int_from_bytes_big_def)

end
